theory Spec2Isabelle
  imports Main "HOL-Library.Word"
begin

section \<open>Concentrated-liquidity swaps (x/concentrated-liquidity/swaps.go)\<close>

text \<open>
  A shallow embedding of the swap functions of \<^verbatim>\<open>swaps.go\<close>:
  \<^verbatim>\<open>SwapExactAmountIn\<close>, \<^verbatim>\<open>SwapExactAmountOut\<close>, \<^verbatim>\<open>CalcOutAmtGivenIn\<close>,
  \<^verbatim>\<open>SwapOutAmtGivenIn\<close>, \<^verbatim>\<open>CalcInAmtGivenOut\<close>, \<^verbatim>\<open>SwapInAmtGivenOut\<close> and
  \<^verbatim>\<open>updatePoolForSwap\<close>.

  Every \<^verbatim>\<open>return ..., err\<close> of the Go code is an \<open>Inl\<close> of the model, every panic the code
  itself can raise (a method called on the zero value \<^verbatim>\<open>sdk.Dec{}\<close>, \<^verbatim>\<open>Int64()\<close> out of
  bounds, \<^verbatim>\<open>sdk.NewCoin\<close> with a negative amount, a division by zero) is an \<open>Inl (Panic _)\<close>.
  The two \<^verbatim>\<open>for\<close> loops have no iteration bound in the source; they are modelled with a
  fuel argument that counts executions of the loop body, and \<open>None\<close> means that the fuel
  did not suffice.
\<close>

subsection \<open>The decimal and integer types of the cosmos-sdk\<close>

text \<open>
  \<^verbatim>\<open>sdk.Dec\<close> is a big integer holding the value multiplied by \<open>10^18\<close>; a \<open>dec\<close> is that
  integer. \<^verbatim>\<open>sdk.Int\<close> is a big integer. The range checks of the two types (panics beyond
  about 256 bits) are outside the model: values are unbounded.
\<close>

type_synonym dec = int

definition precisionReuse :: int where
  "precisionReuse = 1000000000000000000"

definition fivePrecision :: int where
  "fivePrecision = 500000000000000000"

definition OneDec :: dec where
  "OneDec = precisionReuse"

definition ZeroDec :: dec where
  "ZeroDec = 0"

text \<open>\<^verbatim>\<open>sdk.NewDec(i)\<close> and \<^verbatim>\<open>Int.ToDec()\<close>: the integer \<open>i\<close> as a decimal.\<close>

definition NewDec :: "int \<Rightarrow> dec" where
  "NewDec i = i * precisionReuse"

definition ToDec :: "int \<Rightarrow> dec" where
  "ToDec i = i * precisionReuse"

text \<open>\<^verbatim>\<open>big.Int.Quo\<close>: division truncated towards zero.\<close>

definition big_Quo :: "int \<Rightarrow> int \<Rightarrow> int" where
  "big_Quo a b = sgn a * sgn b * (\<bar>a\<bar> div \<bar>b\<bar>)"

text \<open>
  \<^verbatim>\<open>chopPrecisionAndRound\<close>: removes 18 digits, rounding half to even (bankers' rounding);
  a negative argument is negated, chopped and negated back.
\<close>

definition chopPositive :: "int \<Rightarrow> int" where
  "chopPositive d =
     (let quo = d div precisionReuse; rem = d mod precisionReuse
      in if rem = 0 then quo
         else if rem < fivePrecision then quo
         else if rem > fivePrecision then quo + 1
         else if even quo then quo else quo + 1)"

definition chopPrecisionAndRound :: "int \<Rightarrow> int" where
  "chopPrecisionAndRound d = (if d < 0 then - chopPositive (- d) else chopPositive d)"

definition dec_Mul :: "dec \<Rightarrow> dec \<Rightarrow> dec" where
  "dec_Mul a b = chopPrecisionAndRound (a * b)"

text \<open>\<^verbatim>\<open>Dec.Power(2)\<close>: one multiplication of the value by itself, then by one.\<close>

definition dec_Power2 :: "dec \<Rightarrow> dec" where
  "dec_Power2 d = dec_Mul (dec_Mul d d) OneDec"

definition RoundInt :: "dec \<Rightarrow> int" where
  "RoundInt d = chopPrecisionAndRound d"

definition TruncateInt :: "dec \<Rightarrow> int" where
  "TruncateInt d = big_Quo d precisionReuse"

text \<open>\<^verbatim>\<open>sdk.MustNewDecFromStr("0.0000001")\<close> and \<^verbatim>\<open>sdk.NewDecWithPrec(1, 6)\<close>.\<close>

definition exactInEpsilon :: dec where
  "exactInEpsilon = 100000000000"

definition exactOutEpsilon :: dec where
  "exactOutEpsilon = 1000000000000"

datatype error =
    SameDenomInOut
  | PoolNotFound
  | SqrtPriceLimitError
  | InvalidPriceLimit
  | TokenInNotInPool
  | TokenOutNotInPool
  | TokenInSameAsTokenOut
  | NoMoreTicks
  | NextTickConversionError
  | CalculatedTokenInTooLarge
  | ErrInvalidMathApprox
  | ErrLimitMinAmount
  | MinPriceNotBelowCurrent
  | MaxPriceNotAboveCurrent
  | SqrtMinPriceError
  | SqrtMaxPriceError
  | NoLiquidityAvailable
  | Collaborator string
  | Panic string

text \<open>\<^verbatim>\<open>Dec.Quo\<close>: the quotient rounded half to even; \<^verbatim>\<open>big.Int.Quo\<close> panics on a zero divisor.\<close>

definition dec_Quo :: "dec \<Rightarrow> dec \<Rightarrow> error + dec" where
  "dec_Quo a b =
     (if b = 0 then Inl (Panic ''division by zero'')
      else Inr (chopPrecisionAndRound (big_Quo (a * precisionReuse * precisionReuse) b)))"

text \<open>\<^verbatim>\<open>Int.Int64()\<close> panics when the value does not fit 64 signed bits.\<close>

definition Int64 :: "int \<Rightarrow> error + 64 word" where
  "Int64 i =
     (if - (2 ^ 63) \<le> i \<and> i < 2 ^ 63 then Inr (word_of_int i)
      else Inl (Panic ''Int64() out of bound''))"

text \<open>\<^verbatim>\<open>sdk.NewInt(n)\<close> of an \<^verbatim>\<open>int64\<close>.\<close>

definition NewInt :: "64 word \<Rightarrow> int" where
  "NewInt n = sint n"

record Coin =
  Denom :: string
  Amount :: int

text \<open>
  \<^verbatim>\<open>sdk.NewCoin\<close> panics on a negative amount. (It also validates the denomination; at
  both calls the denomination is one of the pool's two assets.)
\<close>

definition NewCoin :: "string \<Rightarrow> int \<Rightarrow> error + Coin" where
  "NewCoin d a =
     (if a < 0 then Inl (Panic ''negative coin amount'')
      else Inr \<lparr>Denom = d, Amount = a\<rparr>)"

subsection \<open>Pools, the keeper's state and the collaborators\<close>

text \<open>
  The getters used by \<^verbatim>\<open>swaps.go\<close> (\<^verbatim>\<open>GetId\<close>, \<^verbatim>\<open>GetAddress\<close>, \<^verbatim>\<open>GetToken0\<close>,
  \<^verbatim>\<open>GetToken1\<close>, \<^verbatim>\<open>GetCurrentSqrtPrice\<close>, \<^verbatim>\<open>GetCurrentTick\<close>, \<^verbatim>\<open>GetLiquidity\<close>) are the
  fields of the record. The liquidity is a \<open>dec option\<close>: \<open>None\<close> is the zero value
  \<^verbatim>\<open>sdk.Dec{}\<close>, whose big integer is nil.
\<close>

record Pool =
  GetId :: "64 word"
  GetAddress :: string
  GetToken0 :: string
  GetToken1 :: string
  GetCurrentSqrtPrice :: dec
  GetCurrentTick :: int
  GetLiquidity :: "dec option"

record kstate =
  pools :: "64 word \<rightharpoonup> Pool"
  balances :: "string \<Rightarrow> string \<Rightarrow> int"

text \<open>
  Modelled from the spec: \<^verbatim>\<open>Keeper.getPoolById\<close> is not among the sources; it is the pool
  lookup of the external interfaces, \<^verbatim>\<open>getPoolById(poolId) -> Pool\<close>, failing with
  \<^verbatim>\<open>PoolNotFound\<close>.
\<close>

definition getPoolById :: "kstate \<Rightarrow> 64 word \<Rightarrow> error + Pool" where
  "getPoolById k poolId = (case pools k poolId of None \<Rightarrow> Inl PoolNotFound | Some p \<Rightarrow> Inr p)"

text \<open>
  Modelled from the spec: \<^verbatim>\<open>Keeper.setPool\<close> is not among the sources; it is the pool
  persist of the external interfaces, \<^verbatim>\<open>setPool(Pool)\<close>, storing the pool under its id.
\<close>

definition setPool :: "kstate \<Rightarrow> Pool \<Rightarrow> error + kstate" where
  "setPool k p = Inr (k\<lparr>pools := (pools k)(GetId p \<mapsto> p)\<rparr>)"

text \<open>
  The functions of the \<^verbatim>\<open>types\<close> package, of the tick store, of the pool and of the bank
  keeper that \<^verbatim>\<open>swaps.go\<close> calls are not among the sources. They are parameters,
  collected in one record, and every theorem holds for all of them:
  \<^item> \<^verbatim>\<open>Dec.ApproxSqrt\<close>, \<^verbatim>\<open>types.MinSqrtRatio\<close>, \<^verbatim>\<open>types.MaxSqrtRatio\<close>,
    \<^verbatim>\<open>types.PriceToTick\<close>, \<^verbatim>\<open>types.TickToSqrtPrice\<close>, \<^verbatim>\<open>types.ComputeSwapStep\<close>,
    \<^verbatim>\<open>types.Liquidity0\<close>, \<^verbatim>\<open>types.Liquidity1\<close>;
  \<^item> \<^verbatim>\<open>Keeper.NextInitializedTick\<close> and \<^verbatim>\<open>Keeper.CrossTick\<close>, which read the tick store
    (no function of \<^verbatim>\<open>swaps.go\<close> writes it);
  \<^item> \<^verbatim>\<open>Pool.ApplySwap\<close> and \<^verbatim>\<open>bankKeeper.SendCoins\<close>.
  They are total functions with the result types of their Go signatures; the liquidity
  argument of \<^verbatim>\<open>ComputeSwapStep\<close> and \<^verbatim>\<open>ApplySwap\<close> may be the zero value \<^verbatim>\<open>sdk.Dec{}\<close>.
\<close>

record collaborators =
  ApproxSqrt :: "dec \<Rightarrow> error + dec"
  MinSqrtRatio :: dec
  MaxSqrtRatio :: dec
  PriceToTick :: "dec \<Rightarrow> int"
  TickToSqrtPrice :: "int \<Rightarrow> error + dec"
  ComputeSwapStep :: "dec \<Rightarrow> dec \<Rightarrow> dec option \<Rightarrow> dec \<Rightarrow> bool \<Rightarrow> dec \<times> dec \<times> dec"
  Liquidity0 :: "int \<Rightarrow> dec \<Rightarrow> dec \<Rightarrow> dec"
  Liquidity1 :: "int \<Rightarrow> dec \<Rightarrow> dec \<Rightarrow> dec"
  NextInitializedTick :: "64 word \<Rightarrow> 64 word \<Rightarrow> bool \<Rightarrow> 64 word option"
  CrossTick :: "64 word \<Rightarrow> 64 word \<Rightarrow> error + dec"
  ApplySwap :: "Pool \<Rightarrow> 64 word \<Rightarrow> dec option \<Rightarrow> int \<Rightarrow> dec \<Rightarrow> error + Pool"
  SendCoins :: "kstate \<Rightarrow> string \<Rightarrow> string \<Rightarrow> Coin list \<Rightarrow> error + kstate"

text \<open>
  Modelled from the spec: \<^verbatim>\<open>types.AddLiquidity\<close> is not among the sources; the delta of
  the crossed tick is added to the running liquidity total. Its first argument is the
  working liquidity, which is nil when it was never initialised.
\<close>

definition AddLiquidity :: "dec option \<Rightarrow> dec \<Rightarrow> error + dec" where
  "AddLiquidity liquidityA liquidityB =
     (case liquidityA of
        None \<Rightarrow> Inl (Panic ''nil pointer dereference'')
      | Some a \<Rightarrow> Inr (a + liquidityB))"

subsection \<open>The swap state\<close>

record SwapState =
  amountSpecifiedRemaining :: dec
  amountCalculated :: dec
  sqrtPrice :: dec
  tick :: int
  liquidity :: "dec option"

subsection \<open>Exact-in: \<^verbatim>\<open>CalcOutAmtGivenIn\<close>\<close>

text \<open>The condition of the \<^verbatim>\<open>for\<close> loop of \<^verbatim>\<open>CalcOutAmtGivenIn\<close>.\<close>

definition calcOutContinue :: "dec \<Rightarrow> SwapState \<Rightarrow> bool" where
  "calcOutContinue sqrtPriceLimit swapState \<longleftrightarrow>
     amountSpecifiedRemaining swapState > exactInEpsilon \<and> sqrtPrice swapState \<noteq> sqrtPriceLimit"

text \<open>
  One execution of the loop body. \<open>poolId\<close> is the function's argument, \<open>pId\<close> is
  \<^verbatim>\<open>p.GetId()\<close>.
\<close>

definition calcOutStep ::
  "collaborators \<Rightarrow> 64 word \<Rightarrow> 64 word \<Rightarrow> bool \<Rightarrow> dec \<Rightarrow> SwapState \<Rightarrow> error + SwapState" where
  "calcOutStep c poolId pId zeroForOne sqrtPriceLimit swapState =
     (let sqrtPriceStart = sqrtPrice swapState in
      case Int64 (tick swapState) of Inl e \<Rightarrow> Inl e | Inr tick64 \<Rightarrow>
      case NextInitializedTick c poolId tick64 zeroForOne of
        None \<Rightarrow> Inl NoMoreTicks
      | Some nextTick \<Rightarrow>
      case TickToSqrtPrice c (NewInt nextTick) of
        Inl e \<Rightarrow> Inl NextTickConversionError
      | Inr nextSqrtPrice \<Rightarrow>
      let sqrtPriceTarget =
            (if zeroForOne \<and> nextSqrtPrice < sqrtPriceLimit \<or>
                \<not> zeroForOne \<and> nextSqrtPrice > sqrtPriceLimit
             then sqrtPriceLimit else nextSqrtPrice);
          (sqrtPrice', amountIn, amountOut) =
            ComputeSwapStep c (sqrtPrice swapState) sqrtPriceTarget (liquidity swapState)
              (amountSpecifiedRemaining swapState) zeroForOne;
          swapState1 = swapState
            \<lparr>sqrtPrice := sqrtPrice',
             amountSpecifiedRemaining := amountSpecifiedRemaining swapState - amountIn,
             amountCalculated := amountCalculated swapState + amountOut\<rparr>
      in if nextSqrtPrice = sqrtPrice' then
           (case CrossTick c pId nextTick of Inl e \<Rightarrow> Inl e | Inr liquidityNet \<Rightarrow>
            let liquidityNet' = (if zeroForOne then - liquidityNet else liquidityNet) in
            case AddLiquidity (liquidity swapState1) liquidityNet' of
              Inl e \<Rightarrow> Inl e
            | Inr newLiquidity \<Rightarrow>
                Inr (swapState1
                  \<lparr>liquidity := Some newLiquidity,
                   tick := (if zeroForOne then NewInt (nextTick - 1) else NewInt nextTick)\<rparr>))
         else if sqrtPriceStart \<noteq> sqrtPrice' then
           Inr (swapState1\<lparr>tick := PriceToTick c (dec_Power2 sqrtPrice')\<rparr>)
         else Inr swapState1)"

text \<open>The loop; the fuel counts the executions of the body.\<close>

fun calcOutLoop ::
  "nat \<Rightarrow> collaborators \<Rightarrow> 64 word \<Rightarrow> 64 word \<Rightarrow> bool \<Rightarrow> dec \<Rightarrow> SwapState
     \<Rightarrow> (error + SwapState) option" where
  "calcOutLoop 0 c poolId pId zeroForOne sqrtPriceLimit swapState =
     (if calcOutContinue sqrtPriceLimit swapState then None else Some (Inr swapState))"
| "calcOutLoop (Suc n) c poolId pId zeroForOne sqrtPriceLimit swapState =
     (if calcOutContinue sqrtPriceLimit swapState then
        (case calcOutStep c poolId pId zeroForOne sqrtPriceLimit swapState of
           Inl e \<Rightarrow> Some (Inl e)
         | Inr swapState' \<Rightarrow> calcOutLoop n c poolId pId zeroForOne sqrtPriceLimit swapState')
      else Some (Inr swapState))"

text \<open>The part of \<^verbatim>\<open>CalcOutAmtGivenIn\<close> after the loop: the coins and the returned tuple.\<close>

definition calcOutResult ::
  "Coin \<Rightarrow> string \<Rightarrow> dec \<Rightarrow> SwapState \<Rightarrow> error + (Coin \<times> Coin \<times> int \<times> dec option \<times> dec)" where
  "calcOutResult tokenInMin tokenOutDenom tokenAmountInAfterFee swapState =
     (let amt0 = RoundInt (tokenAmountInAfterFee - amountSpecifiedRemaining swapState);
          amt1 = TruncateInt (amountCalculated swapState)
      in case NewCoin (Denom tokenInMin) amt0 of Inl e \<Rightarrow> Inl e | Inr tokenIn \<Rightarrow>
         case NewCoin tokenOutDenom amt1 of Inl e \<Rightarrow> Inl e | Inr tokenOut \<Rightarrow>
         Inr (tokenIn, tokenOut, tick swapState, liquidity swapState, sqrtPrice swapState))"

definition CalcOutAmtGivenIn ::
  "nat \<Rightarrow> collaborators \<Rightarrow> kstate \<Rightarrow> Coin \<Rightarrow> string \<Rightarrow> dec \<Rightarrow> dec \<Rightarrow> 64 word
     \<Rightarrow> (error + (Coin \<times> Coin \<times> int \<times> dec option \<times> dec)) option" where
  "CalcOutAmtGivenIn fuel c k tokenInMin tokenOutDenom swapFee priceLimit poolId =
     (case getPoolById k poolId of Inl e \<Rightarrow> Some (Inl e) | Inr p \<Rightarrow>
      let asset0 = GetToken0 p;
          asset1 = GetToken1 p;
          tokenAmountInAfterFee = dec_Mul (ToDec (Amount tokenInMin)) (OneDec - swapFee);
          zeroForOne = (Denom tokenInMin = asset0);
          curSqrtPrice = GetCurrentSqrtPrice p
      in case ApproxSqrt c priceLimit of
           Inl e \<Rightarrow> Some (Inl SqrtPriceLimitError)
         | Inr sqrtPriceLimit \<Rightarrow>
      if zeroForOne \<and> (sqrtPriceLimit > GetCurrentSqrtPrice p \<or> sqrtPriceLimit < MinSqrtRatio c) \<or>
         \<not> zeroForOne \<and> (sqrtPriceLimit < GetCurrentSqrtPrice p \<or> sqrtPriceLimit > MaxSqrtRatio c)
      then Some (Inl InvalidPriceLimit)
      else if Denom tokenInMin \<noteq> asset0 \<and> Denom tokenInMin \<noteq> asset1
      then Some (Inl TokenInNotInPool)
      else if tokenOutDenom \<noteq> asset0 \<and> tokenOutDenom \<noteq> asset1
      then Some (Inl TokenOutNotInPool)
      else if Denom tokenInMin = tokenOutDenom
      then Some (Inl TokenInSameAsTokenOut)
      else
        let swapState = \<lparr>amountSpecifiedRemaining = tokenAmountInAfterFee,
                         amountCalculated = ZeroDec,
                         sqrtPrice = curSqrtPrice,
                         tick = PriceToTick c (dec_Power2 curSqrtPrice),
                         liquidity = GetLiquidity p\<rparr>
        in case calcOutLoop fuel c poolId (GetId p) zeroForOne sqrtPriceLimit swapState of
             None \<Rightarrow> None
           | Some (Inl e) \<Rightarrow> Some (Inl e)
           | Some (Inr swapState') \<Rightarrow>
               Some (calcOutResult tokenInMin tokenOutDenom tokenAmountInAfterFee swapState'))"

subsection \<open>\<^verbatim>\<open>SwapOutAmtGivenIn\<close>, \<^verbatim>\<open>updatePoolForSwap\<close> and \<^verbatim>\<open>SwapExactAmountIn\<close>\<close>

text \<open>
  These functions write the keeper's state; each returns its result together with the
  state it leaves behind. A Go function that returns an error after a write leaves the
  written state in place.
\<close>

definition SwapOutAmtGivenIn ::
  "nat \<Rightarrow> collaborators \<Rightarrow> kstate \<Rightarrow> Coin \<Rightarrow> string \<Rightarrow> dec \<Rightarrow> dec \<Rightarrow> 64 word
     \<Rightarrow> ((error + Coin) \<times> kstate) option" where
  "SwapOutAmtGivenIn fuel c k tokenIn tokenOutDenom swapFee priceLimit poolId =
     (case CalcOutAmtGivenIn fuel c k tokenIn tokenOutDenom swapFee priceLimit poolId of
        None \<Rightarrow> None
      | Some (Inl e) \<Rightarrow> Some (Inl e, k)
      | Some (Inr (calcTokenIn, calcTokenOut, newCurrentTick, newLiquidity, newSqrtPrice)) \<Rightarrow>
      (case getPoolById k poolId of Inl e \<Rightarrow> Some (Inl e, k) | Inr pool \<Rightarrow>
       case ApplySwap c pool poolId newLiquidity newCurrentTick newSqrtPrice of
         Inl e \<Rightarrow> Some (Inl e, k)
       | Inr pool' \<Rightarrow>
       case setPool k pool' of Inl e \<Rightarrow> Some (Inl e, k) | Inr k' \<Rightarrow>
       if Amount calcTokenIn > Amount tokenIn
       then Some (Inl CalculatedTokenInTooLarge, k')
       else Some (Inr calcTokenOut, k')))"

definition updatePoolForSwap ::
  "collaborators \<Rightarrow> kstate \<Rightarrow> Pool \<Rightarrow> string \<Rightarrow> Coin \<Rightarrow> Coin \<Rightarrow> (error + unit) \<times> kstate" where
  "updatePoolForSwap c k pool sender tokenIn tokenOut =
     (case SendCoins c k sender (GetAddress pool) [tokenIn] of
        Inl e \<Rightarrow> (Inl e, k)
      | Inr k1 \<Rightarrow>
      case SendCoins c k1 (GetAddress pool) sender [tokenOut] of
        Inl e \<Rightarrow> (Inl e, k1)
      | Inr k2 \<Rightarrow> (Inr (), k2))"

definition SwapExactAmountIn ::
  "nat \<Rightarrow> collaborators \<Rightarrow> kstate \<Rightarrow> string \<Rightarrow> Pool \<Rightarrow> Coin \<Rightarrow> string \<Rightarrow> int \<Rightarrow> dec
     \<Rightarrow> ((error + int) \<times> kstate) option" where
  "SwapExactAmountIn fuel c k sender poolI tokenIn tokenOutDenom tokenOutMinAmount swapFee =
     (if Denom tokenIn = tokenOutDenom then Some (Inl SameDenomInOut, k)
      else case getPoolById k (GetId poolI) of Inl e \<Rightarrow> Some (Inl e, k) | Inr pool \<Rightarrow>
      let asset0 = GetToken0 pool;
          zeroForOne = (Denom tokenIn = asset0)
      in case (if zeroForOne
               then SwapOutAmtGivenIn fuel c k tokenIn tokenOutDenom swapFee (NewDec 1) (GetId pool)
               else SwapOutAmtGivenIn fuel c k tokenIn tokenOutDenom swapFee
                      (NewDec 999999999999) (GetId pool)) of
           None \<Rightarrow> None
         | Some (Inl e, k1) \<Rightarrow> Some (Inl e, k1)
         | Some (Inr tokenOutCoin, k1) \<Rightarrow>
             let tokenOutAmount = Amount tokenOutCoin
             in if \<not> tokenOutAmount > 0 then Some (Inl ErrInvalidMathApprox, k1)
                else if tokenOutAmount < tokenOutMinAmount then Some (Inl ErrLimitMinAmount, k1)
                else case updatePoolForSwap c k1 pool sender tokenIn tokenOutCoin of
                       (Inl e, k2) \<Rightarrow> Some (Inl e, k2)
                     | (Inr u, k2) \<Rightarrow> Some (Inr tokenOutAmount, k2))"

text \<open>
  \<^verbatim>\<open>SwapExactAmountOut\<close>: its body is \<^verbatim>\<open>return sdk.Int{}, nil\<close>. The result \<open>None\<close> is
  the zero value \<^verbatim>\<open>sdk.Int{}\<close>.
\<close>

definition SwapExactAmountOut ::
  "collaborators \<Rightarrow> kstate \<Rightarrow> string \<Rightarrow> Pool \<Rightarrow> string \<Rightarrow> int \<Rightarrow> Coin \<Rightarrow> dec
     \<Rightarrow> (error + int option) \<times> kstate" where
  "SwapExactAmountOut c k sender poolId tokenInDenom tokenInMaxAmount tokenOut swapFee =
     (Inr None, k)"

subsection \<open>Exact-out: \<^verbatim>\<open>CalcInAmtGivenOut\<close> and \<^verbatim>\<open>SwapInAmtGivenOut\<close>\<close>

text \<open>The condition of the \<^verbatim>\<open>for\<close> loop of \<^verbatim>\<open>CalcInAmtGivenOut\<close>.\<close>

definition calcInContinue :: "SwapState \<Rightarrow> bool" where
  "calcInContinue swapState \<longleftrightarrow> amountSpecifiedRemaining swapState > exactOutEpsilon"

text \<open>
  One execution of the loop body. \<open>liq\<close> is the local variable of that name; the working
  liquidity \<open>liquidity swapState\<close> is read in the tick-crossing branch only, by
  \<^verbatim>\<open>swapState.liquidity.Add\<close>, which dereferences the decimal's big integer.
\<close>

definition calcInStep ::
  "collaborators \<Rightarrow> 64 word \<Rightarrow> 64 word \<Rightarrow> bool \<Rightarrow> dec \<Rightarrow> dec \<Rightarrow> SwapState \<Rightarrow> error + SwapState" where
  "calcInStep c poolId pId zeroForOne liq swapFee swapState =
     (case Int64 (tick swapState) of Inl e \<Rightarrow> Inl e | Inr tick64 \<Rightarrow>
      case NextInitializedTick c poolId tick64 zeroForOne of
        None \<Rightarrow> Inl NoMoreTicks
      | Some nextTick \<Rightarrow>
      case TickToSqrtPrice c (NewInt nextTick) of
        Inl e \<Rightarrow> Inl e
      | Inr nextSqrtPrice \<Rightarrow>
      let (sqrtPrice', amountIn, amountOut) =
            ComputeSwapStep c (sqrtPrice swapState) nextSqrtPrice (Some liq)
              (amountSpecifiedRemaining swapState) zeroForOne
      in case dec_Quo amountOut (OneDec - swapFee) of Inl e \<Rightarrow> Inl e | Inr amountOutWithFee \<Rightarrow>
      let swapState1 = swapState
            \<lparr>amountSpecifiedRemaining := amountSpecifiedRemaining swapState - amountIn,
             amountCalculated := amountCalculated swapState + amountOutWithFee\<rparr>
      in if sqrtPrice swapState1 = sqrtPrice' then
           (case CrossTick c pId nextTick of Inl e \<Rightarrow> Inl e | Inr liquidityDelta \<Rightarrow>
            let liquidityDelta' = (if \<not> zeroForOne then - liquidityDelta else liquidityDelta) in
            case liquidity swapState1 of
              None \<Rightarrow> Inl (Panic ''nil pointer dereference'')
            | Some l \<Rightarrow>
                let newLiquidity = l + liquidityDelta'
                in if newLiquidity \<le> ZeroDec then Inl NoLiquidityAvailable
                   else Inr (swapState1
                     \<lparr>liquidity := Some newLiquidity,
                      tick := (if \<not> zeroForOne then NewInt (nextTick - 1) else NewInt nextTick)\<rparr>))
         else Inr (swapState1\<lparr>tick := PriceToTick c (dec_Power2 sqrtPrice')\<rparr>))"

fun calcInLoop ::
  "nat \<Rightarrow> collaborators \<Rightarrow> 64 word \<Rightarrow> 64 word \<Rightarrow> bool \<Rightarrow> dec \<Rightarrow> dec \<Rightarrow> SwapState
     \<Rightarrow> (error + SwapState) option" where
  "calcInLoop 0 c poolId pId zeroForOne liq swapFee swapState =
     (if calcInContinue swapState then None else Some (Inr swapState))"
| "calcInLoop (Suc n) c poolId pId zeroForOne liq swapFee swapState =
     (if calcInContinue swapState then
        (case calcInStep c poolId pId zeroForOne liq swapFee swapState of
           Inl e \<Rightarrow> Some (Inl e)
         | Inr swapState' \<Rightarrow> calcInLoop n c poolId pId zeroForOne liq swapFee swapState')
      else Some (Inr swapState))"

text \<open>
  \<^verbatim>\<open>CalcInAmtGivenOut\<close>. The swap state is built without its \<^verbatim>\<open>liquidity\<close> field, which
  is therefore the zero value \<^verbatim>\<open>sdk.Dec{}\<close>.
\<close>

definition CalcInAmtGivenOut ::
  "nat \<Rightarrow> collaborators \<Rightarrow> kstate \<Rightarrow> Coin \<Rightarrow> string \<Rightarrow> dec \<Rightarrow> dec \<Rightarrow> dec \<Rightarrow> 64 word
     \<Rightarrow> (error + (Coin \<times> dec option \<times> int \<times> dec)) option" where
  "CalcInAmtGivenOut fuel c k tokenOut tokenInDenom swapFee minPrice maxPrice poolId =
     (let tokenOutAmt = ToDec (Amount tokenOut) in
      case getPoolById k poolId of Inl e \<Rightarrow> Some (Inl e) | Inr p \<Rightarrow>
      let asset0 = GetToken0 p;
          asset1 = GetToken1 p;
          zeroForOne = (Denom tokenOut = asset0);
          curSqrtPrice = GetCurrentSqrtPrice p
      in if Denom tokenOut \<noteq> asset0 \<and> Denom tokenOut \<noteq> asset1
         then Some (Inl TokenOutNotInPool)
         else if tokenInDenom \<noteq> asset0 \<and> tokenInDenom \<noteq> asset1
         then Some (Inl TokenInNotInPool)
         else if Denom tokenOut = tokenInDenom
         then Some (Inl TokenInSameAsTokenOut)
         else if minPrice \<ge> dec_Power2 curSqrtPrice
         then Some (Inl MinPriceNotBelowCurrent)
         else if maxPrice \<le> dec_Power2 curSqrtPrice
         then Some (Inl MaxPriceNotAboveCurrent)
         else case ApproxSqrt c minPrice of
                Inl e \<Rightarrow> Some (Inl SqrtMinPriceError)
              | Inr sqrtPLowerTick \<Rightarrow>
              case ApproxSqrt c maxPrice of
                Inl e \<Rightarrow> Some (Inl SqrtMaxPriceError)
              | Inr sqrtPUpperTick \<Rightarrow>
      let amountETH = 1000000;
          amountUSDC = 5000000000;
          liq0 = Liquidity0 c amountETH curSqrtPrice sqrtPUpperTick;
          liq1 = Liquidity1 c amountUSDC curSqrtPrice sqrtPLowerTick;
          liq = min liq0 liq1;
          swapState = \<lparr>amountSpecifiedRemaining = tokenOutAmt,
                       amountCalculated = ZeroDec,
                       sqrtPrice = curSqrtPrice,
                       tick = PriceToTick c (dec_Power2 curSqrtPrice),
                       liquidity = None\<rparr>
      in case calcInLoop fuel c poolId (GetId p) zeroForOne liq swapFee swapState of
           None \<Rightarrow> None
         | Some (Inl e) \<Rightarrow> Some (Inl e)
         | Some (Inr swapState') \<Rightarrow>
             (case NewCoin tokenInDenom (RoundInt (amountCalculated swapState')) of
                Inl e \<Rightarrow> Some (Inl e)
              | Inr tokenIn \<Rightarrow>
                  Some (Inr (tokenIn, liquidity swapState', tick swapState', sqrtPrice swapState'))))"

definition SwapInAmtGivenOut ::
  "nat \<Rightarrow> collaborators \<Rightarrow> kstate \<Rightarrow> Coin \<Rightarrow> string \<Rightarrow> dec \<Rightarrow> dec \<Rightarrow> dec \<Rightarrow> 64 word
     \<Rightarrow> ((error + Coin) \<times> kstate) option" where
  "SwapInAmtGivenOut fuel c k tokenOut tokenInDenom swapFee minPrice maxPrice poolId =
     (case CalcInAmtGivenOut fuel c k tokenOut tokenInDenom swapFee ZeroDec (NewDec 9999999999)
             poolId of
        None \<Rightarrow> None
      | Some (Inl e) \<Rightarrow> Some (Inl e, k)
      | Some (Inr (tokenInCoin, newLiquidity, newCurrentTick, newCurrentSqrtPrice)) \<Rightarrow>
      (case getPoolById k poolId of Inl e \<Rightarrow> Some (Inl e, k) | Inr pool \<Rightarrow>
       case ApplySwap c pool poolId newLiquidity newCurrentTick newCurrentSqrtPrice of
         Inl e \<Rightarrow> Some (Inl e, k)
       | Inr pool' \<Rightarrow>
       case setPool k pool' of Inl e \<Rightarrow> Some (Inl e, k) | Inr k' \<Rightarrow>
       Some (Inr tokenInCoin, k')))"

subsection \<open>A sample pool\<close>

text \<open>
  A small instance of the collaborators and of the keeper's state, at which the theorems
  below are instantiated. The pool \<open>eth/usdc\<close> has the square-root price \<open>2\<close> and the
  liquidity \<open>10\<close>; the initialised ticks are \<open>1\<close>, \<open>3\<close> and \<open>4\<close>, with the net
  liquidity of a position of \<open>10\<close> over \<open>[1, 3)\<close> and one of \<open>6\<close> over \<open>[3, 4)\<close>.
  The square-root price of tick \<open>t\<close> is \<open>t\<close>, and a swap step moves the price linearly:
  over a price distance \<open>d\<close> it takes \<open>liquidity * d\<close> in and gives as much out, and it
  stops at the target. A second pool rests exactly on the initialised tick \<open>3\<close>.
\<close>

definition sample_ApproxSqrt :: "dec \<Rightarrow> error + dec" where
  "sample_ApproxSqrt d =
     (if d = 0 then Inr 0
      else if d = 1000000000000000000 then Inr 1000000000000000000
      else if d = 4000000000000000000 then Inr 2000000000000000000
      else if d = 4579600000000000000 then Inr 2140000000000000000
      else if d = 9000000000000000000 then Inr 3000000000000000000
      else if d = 9999999999000000000000000000 then Inr 99999999995000000000000
      else if d = 999999999999000000000000000000 then Inr 999999999999500000000000
      else Inl (Collaborator ''no square root in the table''))"

definition sample_PriceToTick :: "dec \<Rightarrow> int" where
  "sample_PriceToTick price =
     (if price < 4000000000000000000 then 1
      else if price < 9000000000000000000 then 2
      else if price < 16000000000000000000 then 3
      else 4)"

definition sample_TickToSqrtPrice :: "int \<Rightarrow> error + dec" where
  "sample_TickToSqrtPrice t =
     (if 0 < t \<and> t \<le> 1000 then Inr (t * precisionReuse)
      else Inl (Collaborator ''tick out of bounds''))"

definition sample_ComputeSwapStep ::
  "dec \<Rightarrow> dec \<Rightarrow> dec option \<Rightarrow> dec \<Rightarrow> bool \<Rightarrow> dec \<times> dec \<times> dec" where
  "sample_ComputeSwapStep sqrtPriceCurrent sqrtPriceTarget liq amountRemaining zeroForOne =
     (case liq of
        None \<Rightarrow> (sqrtPriceCurrent, 0, 0)
      | Some l \<Rightarrow>
          let needed = (l * \<bar>sqrtPriceTarget - sqrtPriceCurrent\<bar>) div precisionReuse
          in if amountRemaining \<ge> needed then (sqrtPriceTarget, needed, needed)
             else let moved = (amountRemaining * precisionReuse) div l
                  in (if zeroForOne then sqrtPriceCurrent - moved else sqrtPriceCurrent + moved,
                      amountRemaining, amountRemaining))"

definition sample_NextInitializedTick :: "64 word \<Rightarrow> 64 word \<Rightarrow> bool \<Rightarrow> 64 word option" where
  "sample_NextInitializedTick poolId t zeroForOne =
     (if zeroForOne then
        (if sint t \<ge> 4 then Some 4 else if sint t \<ge> 3 then Some 3
         else if sint t \<ge> 1 then Some 1 else None)
      else
        (if sint t < 1 then Some 1 else if sint t < 3 then Some 3
         else if sint t < 4 then Some 4 else None))"

definition sample_CrossTick :: "64 word \<Rightarrow> 64 word \<Rightarrow> error + dec" where
  "sample_CrossTick poolId t =
     (if t = 1 then Inr 10000000000000000000
      else if t = 3 then Inr (- 4000000000000000000)
      else if t = 4 then Inr (- 6000000000000000000)
      else Inl (Collaborator ''tick not found''))"

definition sample_ApplySwap ::
  "Pool \<Rightarrow> 64 word \<Rightarrow> dec option \<Rightarrow> int \<Rightarrow> dec \<Rightarrow> error + Pool" where
  "sample_ApplySwap p poolId newLiquidity newCurrentTick newCurrentSqrtPrice =
     (if GetId p \<noteq> poolId then Inl (Collaborator ''wrong pool id'')
      else Inr (p\<lparr>GetLiquidity := newLiquidity,
                 GetCurrentTick := newCurrentTick,
                 GetCurrentSqrtPrice := newCurrentSqrtPrice\<rparr>))"

definition sample_SendCoins :: "kstate \<Rightarrow> string \<Rightarrow> string \<Rightarrow> Coin list \<Rightarrow> error + kstate" where
  "sample_SendCoins k fromAddr toAddr amt =
     (if list_ex (\<lambda>coin. balances k fromAddr (Denom coin) < Amount coin) amt
      then Inl (Collaborator ''insufficient funds'')
      else Inr (k\<lparr>balances :=
             fold (\<lambda>coin b.
                     (b(fromAddr := (b fromAddr)(Denom coin := b fromAddr (Denom coin) - Amount coin)))
                      (toAddr := (b toAddr)(Denom coin := b toAddr (Denom coin) + Amount coin)))
                  amt (balances k)\<rparr>))"

definition sample :: collaborators where
  "sample =
     \<lparr>ApproxSqrt = sample_ApproxSqrt,
      MinSqrtRatio = 1,
      MaxSqrtRatio = 1000000000000000000000000,
      PriceToTick = sample_PriceToTick,
      TickToSqrtPrice = sample_TickToSqrtPrice,
      ComputeSwapStep = sample_ComputeSwapStep,
      Liquidity0 = (\<lambda>amount sqrtPriceA sqrtPriceB. 10000000000000000000),
      Liquidity1 = (\<lambda>amount sqrtPriceA sqrtPriceB. 10000000000000000000),
      NextInitializedTick = sample_NextInitializedTick,
      CrossTick = sample_CrossTick,
      ApplySwap = sample_ApplySwap,
      SendCoins = sample_SendCoins\<rparr>"

definition samplePool :: Pool where
  "samplePool =
     \<lparr>GetId = 1, GetAddress = ''pool1'', GetToken0 = ''eth'', GetToken1 = ''usdc'',
      GetCurrentSqrtPrice = 2000000000000000000, GetCurrentTick = 2,
      GetLiquidity = Some 10000000000000000000\<rparr>"

definition samplePoolAtTick :: Pool where
  "samplePoolAtTick =
     \<lparr>GetId = 2, GetAddress = ''pool2'', GetToken0 = ''eth'', GetToken1 = ''usdc'',
      GetCurrentSqrtPrice = 3000000000000000000, GetCurrentTick = 3,
      GetLiquidity = Some 6000000000000000000\<rparr>"

definition sampleState :: kstate where
  "sampleState =
     \<lparr>pools = [1 \<mapsto> samplePool, 2 \<mapsto> samplePoolAtTick],
      balances = (\<lambda>addr denom. 1000)\<rparr>"

section \<open>Properties\<close>

subsection \<open>Facts about the sample pool\<close>

lemma getPoolById_sample1: "getPoolById sampleState 1 = Inr samplePool"
  by (simp add: getPoolById_def sampleState_def)

lemma samplePool_fields:
  "GetId samplePool = 1" "GetToken0 samplePool = ''eth''" "GetToken1 samplePool = ''usdc''"
  by (simp_all add: samplePool_def)

lemma sample_ApplySwap_samplePool:
  "ApplySwap sample samplePool 1 newLiquidity newTick newSqrtPrice =
     Inr (samplePool\<lparr>GetLiquidity := newLiquidity, GetCurrentTick := newTick,
                     GetCurrentSqrtPrice := newSqrtPrice\<rparr>)"
  by (simp add: sample_def sample_ApplySwap_def samplePool_def)

text \<open>Selling 4 eth into the sample pool moves the square-root price from 2 to 1.6.\<close>

lemma calc_sample_eth4:
  "CalcOutAmtGivenIn 1 sample sampleState \<lparr>Denom = ''eth'', Amount = 4\<rparr> ''usdc'' 0 (NewDec 1) 1 =
     Some (Inr (\<lparr>Denom = ''eth'', Amount = 4\<rparr>, \<lparr>Denom = ''usdc'', Amount = 4\<rparr>, 1,
                Some 10000000000000000000, 1600000000000000000))"
  by code_simp

lemma swapOut_sample_eth4:
  "SwapOutAmtGivenIn 1 sample sampleState \<lparr>Denom = ''eth'', Amount = 4\<rparr> ''usdc'' 0 (NewDec 1) 1 =
     Some (Inr \<lparr>Denom = ''usdc'', Amount = 4\<rparr>,
           sampleState\<lparr>pools := (pools sampleState)(1 \<mapsto>
              samplePool\<lparr>GetLiquidity := Some 10000000000000000000, GetCurrentTick := 1,
                           GetCurrentSqrtPrice := 1600000000000000000\<rparr>)\<rparr>)"
  unfolding SwapOutAmtGivenIn_def calc_sample_eth4
  by (simp add: getPoolById_sample1 sample_ApplySwap_samplePool setPool_def samplePool_fields)

text \<open>Buying 4 usdc out of the sample pool takes one execution of the exact-out loop.\<close>

lemma calcIn_sample_usdc4:
  "CalcInAmtGivenOut 1 sample sampleState \<lparr>Denom = ''usdc'', Amount = 4\<rparr> ''eth'' 0 ZeroDec
     (NewDec 9999999999) 1 =
   Some (Inr (\<lparr>Denom = ''eth'', Amount = 4\<rparr>, None, 2, 2000000000000000000))"
  by code_simp

subsection \<open>The exact-out loop never writes the working square-root price or liquidity\<close>

lemma calcInStep_sqrtPrice:
  "calcInStep c poolId pId zeroForOne liq swapFee st = Inr st' \<Longrightarrow> sqrtPrice st' = sqrtPrice st"
  by (auto simp: calcInStep_def Let_def split: sum.splits option.splits prod.splits if_splits)

lemma calcInLoop_sqrtPrice:
  "calcInLoop n c poolId pId zeroForOne liq swapFee st = Some (Inr st') \<Longrightarrow>
     sqrtPrice st' = sqrtPrice st"
proof (induction n arbitrary: st)
  case 0
  then show ?case by (simp split: if_splits)
next
  case (Suc n)
  show ?case
  proof (cases "calcInContinue st")
    case False
    with Suc.prems show ?thesis by simp
  next
    case True
    with Suc.prems obtain st1 where
      step: "calcInStep c poolId pId zeroForOne liq swapFee st = Inr st1" and
      rest: "calcInLoop n c poolId pId zeroForOne liq swapFee st1 = Some (Inr st')"
      by (auto split: sum.splits)
    from Suc.IH [OF rest] calcInStep_sqrtPrice [OF step] show ?thesis by simp
  qed
qed

lemma calcInStep_liquidity_nil:
  "calcInStep c poolId pId zeroForOne liq swapFee st = Inr st' \<Longrightarrow> liquidity st = None \<Longrightarrow>
     liquidity st' = None"
  by (auto simp: calcInStep_def Let_def split: sum.splits option.splits prod.splits if_splits)

lemma calcInLoop_liquidity_nil:
  "calcInLoop n c poolId pId zeroForOne liq swapFee st = Some (Inr st') \<Longrightarrow>
     liquidity st = None \<Longrightarrow> liquidity st' = None"
proof (induction n arbitrary: st)
  case 0
  then show ?case by (simp split: if_splits)
next
  case (Suc n)
  show ?case
  proof (cases "calcInContinue st")
    case False
    with Suc.prems show ?thesis by simp
  next
    case True
    with Suc.prems obtain st1 where
      step: "calcInStep c poolId pId zeroForOne liq swapFee st = Inr st1" and
      rest: "calcInLoop n c poolId pId zeroForOne liq swapFee st1 = Some (Inr st')"
      by (auto split: sum.splits)
    from calcInStep_liquidity_nil [OF step Suc.prems(2)] have "liquidity st1 = None" .
    from Suc.IH [OF rest this] show ?thesis .
  qed
qed

subsection \<open>Crossing a tick in the exact-in loop\<close>

text \<open>
  Claim C1. In the loop of \<^verbatim>\<open>CalcOutAmtGivenIn\<close>, when the square-root price computed by
  the swap step equals the square-root price of the next initialised tick (and
  \<^verbatim>\<open>CrossTick\<close> returns that tick's net liquidity), the step succeeds, the working
  liquidity afterwards is the liquidity before the crossing plus the net liquidity, negated
  when \<open>zeroForOne\<close>, and the working tick is \<^verbatim>\<open>nextTick - 1\<close> when \<open>zeroForOne\<close> and
  \<^verbatim>\<open>nextTick\<close> otherwise (\<^verbatim>\<open>nextTick\<close> is an \<^verbatim>\<open>int64\<close>, read back by \<open>sint\<close>).
\<close>

theorem calcOutStep_crosses_tick:
  assumes "Int64 (tick st) = Inr tick64"
    and "NextInitializedTick c poolId tick64 zeroForOne = Some nextTick"
    and "TickToSqrtPrice c (NewInt nextTick) = Inr nextSqrtPrice"
    and "ComputeSwapStep c (sqrtPrice st)
           (if zeroForOne \<and> nextSqrtPrice < sqrtPriceLimit \<or>
               \<not> zeroForOne \<and> nextSqrtPrice > sqrtPriceLimit
            then sqrtPriceLimit else nextSqrtPrice)
           (liquidity st) (amountSpecifiedRemaining st) zeroForOne =
         (nextSqrtPrice, amountIn, amountOut)"
    and "CrossTick c pId nextTick = Inr liquidityNet"
    and "liquidity st = Some l"
  shows "\<exists>st'. calcOutStep c poolId pId zeroForOne sqrtPriceLimit st = Inr st' \<and>
           liquidity st' = Some (l + (if zeroForOne then - liquidityNet else liquidityNet)) \<and>
           tick st' = (if zeroForOne then sint (nextTick - 1) else sint nextTick)"
  using assms
  by (simp add: calcOutStep_def Let_def AddLiquidity_def NewInt_def)

theorem calcOutStep_crosses_tick_witness:
  "\<exists>st'. calcOutStep sample 1 1 False 999999999999500000000000
            \<lparr>amountSpecifiedRemaining = 25000000000000000000, amountCalculated = 0,
             sqrtPrice = 2000000000000000000, tick = 2,
             liquidity = Some 10000000000000000000\<rparr> = Inr st' \<and>
         liquidity st' = Some 6000000000000000000 \<and> tick st' = 3"
proof -
  let ?st = "\<lparr>amountSpecifiedRemaining = 25000000000000000000, amountCalculated = 0,
              sqrtPrice = 2000000000000000000, tick = 2,
              liquidity = Some (10000000000000000000 :: dec)\<rparr>"
  have a1: "Int64 (tick ?st) = Inr 2"
    by (simp add: Int64_def)
  have a2: "NextInitializedTick sample 1 2 False = Some 3"
    by (simp add: sample_def sample_NextInitializedTick_def)
  have a3: "TickToSqrtPrice sample (NewInt 3) = Inr 3000000000000000000"
    by (simp add: sample_def sample_TickToSqrtPrice_def NewInt_def precisionReuse_def)
  have a4: "ComputeSwapStep sample (sqrtPrice ?st)
           (if False \<and> 3000000000000000000 < (999999999999500000000000 :: dec) \<or>
               \<not> False \<and> 3000000000000000000 > (999999999999500000000000 :: dec)
            then 999999999999500000000000 else 3000000000000000000)
           (liquidity ?st) (amountSpecifiedRemaining ?st) False =
         (3000000000000000000, 10000000000000000000, 10000000000000000000)"
    by (simp add: sample_def sample_ComputeSwapStep_def precisionReuse_def)
  have a5: "CrossTick sample 1 3 = Inr (- 4000000000000000000)"
    by (simp add: sample_def sample_CrossTick_def)
  have a6: "liquidity ?st = Some 10000000000000000000"
    by simp
  from calcOutStep_crosses_tick [OF a1 a2 a3 a4 a5 a6]
  show ?thesis by simp
qed

subsection \<open>Errors and the stored pool\<close>

text \<open>
  Claim C2, as amended. When \<^verbatim>\<open>CalcOutAmtGivenIn\<close> returns an error (a violated
  precondition, or a failure inside the loop such as the lack of a next initialised tick),
  \<^verbatim>\<open>SwapOutAmtGivenIn\<close> and \<^verbatim>\<open>SwapExactAmountIn\<close> return that error and the keeper's
  state, with the stored pool, is the one at call entry.
\<close>

theorem SwapExactAmountIn_calc_error_keeps_state:
  assumes "Denom tokenIn \<noteq> tokenOutDenom"
    and "getPoolById k (GetId poolI) = Inr pool"
    and "CalcOutAmtGivenIn fuel c k tokenIn tokenOutDenom swapFee
           (if Denom tokenIn = GetToken0 pool then NewDec 1 else NewDec 999999999999)
           (GetId pool) = Some (Inl e)"
  shows "SwapOutAmtGivenIn fuel c k tokenIn tokenOutDenom swapFee
           (if Denom tokenIn = GetToken0 pool then NewDec 1 else NewDec 999999999999)
           (GetId pool) = Some (Inl e, k) \<and>
         SwapExactAmountIn fuel c k sender poolI tokenIn tokenOutDenom tokenOutMinAmount swapFee =
           Some (Inl e, k)"
proof -
  have inner: "SwapOutAmtGivenIn fuel c k tokenIn tokenOutDenom swapFee
           (if Denom tokenIn = GetToken0 pool then NewDec 1 else NewDec 999999999999)
           (GetId pool) = Some (Inl e, k)"
    using assms(3) by (simp add: SwapOutAmtGivenIn_def)
  have outer: "SwapExactAmountIn fuel c k sender poolI tokenIn tokenOutDenom tokenOutMinAmount
                 swapFee = Some (Inl e, k)"
  proof (cases "Denom tokenIn = GetToken0 pool")
    case True
    with inner assms(1,2) show ?thesis by (simp add: SwapExactAmountIn_def Let_def)
  next
    case False
    with inner assms(1,2) show ?thesis by (simp add: SwapExactAmountIn_def Let_def)
  qed
  from inner outer show ?thesis by simp
qed

text \<open>The witness: a coin that is not an asset of the sample pool.\<close>

theorem SwapExactAmountIn_calc_error_keeps_state_witness:
  "SwapOutAmtGivenIn 1 sample sampleState \<lparr>Denom = ''btc'', Amount = 4\<rparr> ''usdc'' 0
     (NewDec 999999999999) 1 = Some (Inl TokenInNotInPool, sampleState) \<and>
   SwapExactAmountIn 1 sample sampleState ''alice'' samplePool \<lparr>Denom = ''btc'', Amount = 4\<rparr>
     ''usdc'' 0 0 = Some (Inl TokenInNotInPool, sampleState)"
proof -
  have a1: "Denom \<lparr>Denom = ''btc'', Amount = 4\<rparr> \<noteq> ''usdc''"
    by simp
  have a2: "getPoolById sampleState (GetId samplePool) = Inr samplePool"
    by (simp add: samplePool_fields getPoolById_sample1)
  have "CalcOutAmtGivenIn 1 sample sampleState \<lparr>Denom = ''btc'', Amount = 4\<rparr> ''usdc'' 0
          (NewDec 999999999999) 1 = Some (Inl TokenInNotInPool)"
    by code_simp
  then have a3: "CalcOutAmtGivenIn 1 sample sampleState \<lparr>Denom = ''btc'', Amount = 4\<rparr> ''usdc'' 0
          (if Denom \<lparr>Denom = ''btc'', Amount = 4\<rparr> = GetToken0 samplePool
           then NewDec 1 else NewDec 999999999999)
          (GetId samplePool) = Some (Inl TokenInNotInPool)"
    by (simp add: samplePool_fields del: One_nat_def)
  from SwapExactAmountIn_calc_error_keeps_state [OF a1 a2 a3, of "''alice''" 0]
  show ?thesis by (simp add: samplePool_fields del: One_nat_def)
qed

text \<open>
  The claim as stated fails: the swap below returns \<^verbatim>\<open>ErrLimitMinAmount\<close> (4 usdc come out,
  5 were asked for), and the pool stored under id 1 has moved from the square-root price 2
  and tick 2 to the square-root price 1.6 and tick 1. \<^verbatim>\<open>SwapOutAmtGivenIn\<close> stores the
  pool before \<^verbatim>\<open>SwapExactAmountIn\<close> checks the amount.
\<close>

theorem SwapExactAmountIn_error_after_commit:
  "SwapExactAmountIn 1 sample sampleState ''alice'' samplePool \<lparr>Denom = ''eth'', Amount = 4\<rparr>
      ''usdc'' 5 0 =
     Some (Inl ErrLimitMinAmount,
           sampleState\<lparr>pools := (pools sampleState)(1 \<mapsto>
              samplePool\<lparr>GetLiquidity := Some 10000000000000000000, GetCurrentTick := 1,
                           GetCurrentSqrtPrice := 1600000000000000000\<rparr>)\<rparr>) \<and>
   GetCurrentSqrtPrice samplePool = 2000000000000000000 \<and>
   GetCurrentTick samplePool = 2"
proof -
  have "SwapExactAmountIn 1 sample sampleState ''alice'' samplePool
          \<lparr>Denom = ''eth'', Amount = 4\<rparr> ''usdc'' 5 0 =
     Some (Inl ErrLimitMinAmount,
           sampleState\<lparr>pools := (pools sampleState)(1 \<mapsto>
              samplePool\<lparr>GetLiquidity := Some 10000000000000000000, GetCurrentTick := 1,
                           GetCurrentSqrtPrice := 1600000000000000000\<rparr>)\<rparr>)"
    unfolding SwapExactAmountIn_def samplePool_fields getPoolById_sample1
    by (simp add: samplePool_fields swapOut_sample_eth4 del: One_nat_def)
  moreover have "GetCurrentSqrtPrice samplePool = 2000000000000000000 \<and>
                 GetCurrentTick samplePool = 2"
    by (simp add: samplePool_def)
  ultimately show ?thesis by simp
qed

subsection \<open>The amounts returned by \<^verbatim>\<open>CalcOutAmtGivenIn\<close>\<close>

text \<open>
  What the code after the loop returns: the input amount is \<^verbatim>\<open>RoundInt\<close> of the after-fee
  input minus the remaining amount, the output amount is \<^verbatim>\<open>TruncateInt\<close> of the
  accumulated amount.
\<close>

lemma calcOutResult_amounts:
  assumes "calcOutResult tokenInMin tokenOutDenom tokenAmountInAfterFee st =
             Inr (tokenIn, tokenOut, t, l, sp)"
  shows "Amount tokenIn = RoundInt (tokenAmountInAfterFee - amountSpecifiedRemaining st) \<and>
         Amount tokenOut = TruncateInt (amountCalculated st)"
  using assms
  by (auto simp: calcOutResult_def Let_def NewCoin_def split: if_splits)

text \<open>
  Claim C3 says that the realized input is rounded up. The source's comment says so as well
  (\<^verbatim>\<open>round amountIn up to avoid under charging\<close>), but \<^verbatim>\<open>RoundInt\<close> rounds to the nearest
  integer. In the sample pool, 5 usdc with the price limit \<open>2.14 * 2.14\<close>: the loop runs once
  and reaches the limit having consumed 1.4 usdc (5 less the remaining 3.6), and the returned
  input amount is 1, below what was consumed. The output amount 1 is the accumulated 1.4
  truncated.
\<close>

theorem CalcOutAmtGivenIn_rounds_input_to_nearest:
  "CalcOutAmtGivenIn 1 sample sampleState \<lparr>Denom = ''usdc'', Amount = 5\<rparr> ''eth'' 0
     4579600000000000000 1 =
     Some (Inr (\<lparr>Denom = ''usdc'', Amount = 1\<rparr>, \<lparr>Denom = ''eth'', Amount = 1\<rparr>, 2,
                Some 10000000000000000000, 2140000000000000000)) \<and>
   calcOutLoop 1 sample 1 1 False 2140000000000000000
     \<lparr>amountSpecifiedRemaining = 5000000000000000000, amountCalculated = 0,
      sqrtPrice = 2000000000000000000, tick = 2, liquidity = Some 10000000000000000000\<rparr> =
     Some (Inr \<lparr>amountSpecifiedRemaining = 3600000000000000000,
                amountCalculated = 1400000000000000000,
                sqrtPrice = 2140000000000000000, tick = 2,
                liquidity = Some 10000000000000000000\<rparr>) \<and>
   ToDec 1 < 5000000000000000000 - 3600000000000000000"
  by code_simp

subsection \<open>A price limit at the current price\<close>

text \<open>
  Claim C4. For a pool whose current tick is the tick of its current square-root price and
  whose square-root price lies within the protocol's bounds, and an exact-in swap between
  the pool's two assets whose square-root price limit equals the pool's current square-root
  price, \<^verbatim>\<open>CalcOutAmtGivenIn\<close> returns the amounts zero in and zero out and the pool's
  current tick, liquidity and square-root price. It does so with any fuel, also with none:
  the loop body is not executed.
\<close>

theorem CalcOutAmtGivenIn_limit_at_current_price:
  assumes "getPoolById k poolId = Inr p"
    and "ApproxSqrt c priceLimit = Inr (GetCurrentSqrtPrice p)"
    and "MinSqrtRatio c \<le> GetCurrentSqrtPrice p"
    and "GetCurrentSqrtPrice p \<le> MaxSqrtRatio c"
    and "Denom tokenInMin = GetToken0 p \<and> tokenOutDenom = GetToken1 p \<or>
         Denom tokenInMin = GetToken1 p \<and> tokenOutDenom = GetToken0 p"
    and "GetToken0 p \<noteq> GetToken1 p"
    and "GetCurrentTick p = PriceToTick c (dec_Power2 (GetCurrentSqrtPrice p))"
  shows "CalcOutAmtGivenIn fuel c k tokenInMin tokenOutDenom swapFee priceLimit poolId =
           Some (Inr (\<lparr>Denom = Denom tokenInMin, Amount = 0\<rparr>,
                      \<lparr>Denom = tokenOutDenom, Amount = 0\<rparr>,
                      GetCurrentTick p, GetLiquidity p, GetCurrentSqrtPrice p))"
proof -
  let ?afterFee = "dec_Mul (ToDec (Amount tokenInMin)) (OneDec - swapFee)"
  let ?st = "\<lparr>amountSpecifiedRemaining = ?afterFee,
              amountCalculated = ZeroDec,
              sqrtPrice = GetCurrentSqrtPrice p,
              tick = PriceToTick c (dec_Power2 (GetCurrentSqrtPrice p)),
              liquidity = GetLiquidity p\<rparr>"
  have stop: "\<not> calcOutContinue (GetCurrentSqrtPrice p) ?st"
    by (simp add: calcOutContinue_def)
  have loop: "calcOutLoop fuel c poolId (GetId p) (Denom tokenInMin = GetToken0 p)
                (GetCurrentSqrtPrice p) ?st = Some (Inr ?st)"
    using stop by (cases fuel) simp_all
  have res: "calcOutResult tokenInMin tokenOutDenom ?afterFee ?st =
             Inr (\<lparr>Denom = Denom tokenInMin, Amount = 0\<rparr>,
                  \<lparr>Denom = tokenOutDenom, Amount = 0\<rparr>,
                  GetCurrentTick p, GetLiquidity p, GetCurrentSqrtPrice p)"
    using assms(7)
    by (simp add: calcOutResult_def RoundInt_def TruncateInt_def chopPrecisionAndRound_def
        chopPositive_def big_Quo_def NewCoin_def ZeroDec_def)
  show ?thesis
    using assms(1-6) loop res
    by (auto simp: CalcOutAmtGivenIn_def Let_def)
qed

theorem CalcOutAmtGivenIn_limit_at_current_price_witness:
  "CalcOutAmtGivenIn 0 sample sampleState \<lparr>Denom = ''usdc'', Amount = 5\<rparr> ''eth'' 0
     4000000000000000000 1 =
   Some (Inr (\<lparr>Denom = ''usdc'', Amount = 0\<rparr>, \<lparr>Denom = ''eth'', Amount = 0\<rparr>, 2,
              Some 10000000000000000000, 2000000000000000000))"
proof -
  have a2: "ApproxSqrt sample 4000000000000000000 = Inr (GetCurrentSqrtPrice samplePool)"
    by (simp add: sample_def sample_ApproxSqrt_def samplePool_def)
  have a3: "MinSqrtRatio sample \<le> GetCurrentSqrtPrice samplePool"
    by (simp add: sample_def samplePool_def)
  have a4: "GetCurrentSqrtPrice samplePool \<le> MaxSqrtRatio sample"
    by (simp add: sample_def samplePool_def)
  have a5: "Denom \<lparr>Denom = ''usdc'', Amount = 5\<rparr> = GetToken0 samplePool \<and>
              ''eth'' = GetToken1 samplePool \<or>
            Denom \<lparr>Denom = ''usdc'', Amount = 5\<rparr> = GetToken1 samplePool \<and>
              ''eth'' = GetToken0 samplePool"
    by (simp add: samplePool_def)
  have a6: "GetToken0 samplePool \<noteq> GetToken1 samplePool"
    by (simp add: samplePool_def)
  have a7: "GetCurrentTick samplePool =
              PriceToTick sample (dec_Power2 (GetCurrentSqrtPrice samplePool))"
    by code_simp
  from CalcOutAmtGivenIn_limit_at_current_price
         [OF getPoolById_sample1 a2 a3 a4 a5 a6 a7, of 0 0]
  show ?thesis by (simp add: samplePool_def)
qed

subsection \<open>The stopping tolerances of the two loops\<close>

text \<open>
  Claim C5, as amended. The exact-in loop iterates exactly while the remaining amount
  exceeds \<open>1e-7\<close> and the working square-root price differs from the limit; the exact-out
  loop iterates exactly while the remaining amount exceeds \<open>1e-6\<close>, and has no condition
  on the price. (A decimal is its value times \<open>10^18\<close>.)
\<close>

theorem loops_stopping_tolerances:
  "calcOutLoop (Suc n) c poolId pId zeroForOne sqrtPriceLimit st =
     (if amountSpecifiedRemaining st > 100000000000 \<and> sqrtPrice st \<noteq> sqrtPriceLimit
      then (case calcOutStep c poolId pId zeroForOne sqrtPriceLimit st of
              Inl e \<Rightarrow> Some (Inl e)
            | Inr st' \<Rightarrow> calcOutLoop n c poolId pId zeroForOne sqrtPriceLimit st')
      else Some (Inr st)) \<and>
   calcInLoop (Suc n) c poolId pId zeroForOne liq swapFee st =
     (if amountSpecifiedRemaining st > 1000000000000
      then (case calcInStep c poolId pId zeroForOne liq swapFee st of
              Inl e \<Rightarrow> Some (Inl e)
            | Inr st' \<Rightarrow> calcInLoop n c poolId pId zeroForOne liq swapFee st')
      else Some (Inr st)) \<and>
   10 ^ 7 * (100000000000 :: dec) = OneDec \<and> 10 ^ 6 * (1000000000000 :: dec) = OneDec"
  by (simp add: calcOutContinue_def calcInContinue_def exactInEpsilon_def exactOutEpsilon_def
      OneDec_def precisionReuse_def)

text \<open>The witness: with \<open>5e-7\<close> remaining the exact-out loop returns the state as it is.\<close>

theorem loops_stopping_tolerances_witness:
  "calcInLoop (Suc 0) sample 1 1 False 10000000000000000000 0
     \<lparr>amountSpecifiedRemaining = 500000000000, amountCalculated = 0,
      sqrtPrice = 2000000000000000000, tick = 2, liquidity = None\<rparr> =
   Some (Inr \<lparr>amountSpecifiedRemaining = 500000000000, amountCalculated = 0,
              sqrtPrice = 2000000000000000000, tick = 2, liquidity = None\<rparr>)"
  using loops_stopping_tolerances [of 0 sample 1 1 False 0
      "\<lparr>amountSpecifiedRemaining = 500000000000, amountCalculated = 0,
        sqrtPrice = 2000000000000000000, tick = 2, liquidity = None\<rparr>" 10000000000000000000 0]
  by simp

text \<open>
  The claim as stated fails: with \<open>5e-7\<close> remaining (more than \<open>1e-7\<close>) the condition of
  the exact-in loop holds and the condition of the exact-out loop does not.
\<close>

theorem loops_tolerances_differ:
  "calcOutContinue 3000000000000000000
     \<lparr>amountSpecifiedRemaining = 500000000000, amountCalculated = 0,
      sqrtPrice = 2000000000000000000, tick = 2, liquidity = None\<rparr> \<and>
   \<not> calcInContinue
     \<lparr>amountSpecifiedRemaining = 500000000000, amountCalculated = 0,
      sqrtPrice = 2000000000000000000, tick = 2, liquidity = None\<rparr> \<and>
   (500000000000 :: dec) > exactInEpsilon"
  by (simp add: calcOutContinue_def calcInContinue_def exactInEpsilon_def exactOutEpsilon_def)

subsection \<open>\<^verbatim>\<open>SwapExactAmountOut\<close>\<close>

text \<open>
  Claim C6 says that \<^verbatim>\<open>SwapExactAmountOut\<close> returns the input amount that the exact-out
  algorithm computes. The function is a stub: for the request of 4 usdc out of the sample
  pool, for which \<^verbatim>\<open>SwapInAmtGivenOut\<close> computes an input of 4 eth, it returns the zero
  value \<^verbatim>\<open>sdk.Int{}\<close> and no error, and leaves the state as it is.
\<close>

theorem SwapExactAmountOut_returns_nothing:
  "SwapExactAmountOut sample sampleState ''alice'' samplePool ''eth'' 1000
     \<lparr>Denom = ''usdc'', Amount = 4\<rparr> 0 = (Inr None, sampleState) \<and>
   map_option fst (SwapInAmtGivenOut 1 sample sampleState \<lparr>Denom = ''usdc'', Amount = 4\<rparr>
     ''eth'' 0 ZeroDec (NewDec 9999999999) 1) = Some (Inr \<lparr>Denom = ''eth'', Amount = 4\<rparr>)"
proof -
  have "SwapExactAmountOut sample sampleState ''alice'' samplePool ''eth'' 1000
          \<lparr>Denom = ''usdc'', Amount = 4\<rparr> 0 = (Inr None, sampleState)"
    by (simp add: SwapExactAmountOut_def)
  moreover have "map_option fst (SwapInAmtGivenOut 1 sample sampleState
          \<lparr>Denom = ''usdc'', Amount = 4\<rparr> ''eth'' 0 ZeroDec (NewDec 9999999999) 1) =
        Some (Inr \<lparr>Denom = ''eth'', Amount = 4\<rparr>)"
    unfolding SwapInAmtGivenOut_def calcIn_sample_usdc4
    by (simp add: getPoolById_sample1 sample_ApplySwap_samplePool setPool_def)
  ultimately show ?thesis by simp
qed

subsection \<open>The working liquidity of the exact-out loop\<close>

text \<open>
  The swap state of \<^verbatim>\<open>CalcInAmtGivenOut\<close> starts with a nil liquidity, and no step that
  returns changes it: every successful call returns the nil liquidity.
\<close>

lemma CalcInAmtGivenOut_liquidity_nil:
  assumes "CalcInAmtGivenOut fuel c k tokenOut tokenInDenom swapFee minPrice maxPrice poolId =
             Some (Inr (tokenIn, newLiquidity, newTick, newSqrtPrice))"
  shows "newLiquidity = None"
  using assms
  by (auto simp: CalcInAmtGivenOut_def Let_def
      split: sum.splits option.splits if_splits dest: calcInLoop_liquidity_nil)

text \<open>
  A step of the exact-out loop that reaches the tick-crossing branch with the nil liquidity
  stops in \<^verbatim>\<open>swapState.liquidity.Add\<close>.
\<close>

lemma calcInStep_cross_nil_liquidity:
  assumes "Int64 (tick st) = Inr tick64"
    and "NextInitializedTick c poolId tick64 zeroForOne = Some nextTick"
    and "TickToSqrtPrice c (NewInt nextTick) = Inr nextSqrtPrice"
    and "ComputeSwapStep c (sqrtPrice st) nextSqrtPrice (Some liq) (amountSpecifiedRemaining st)
           zeroForOne = (sqrtPrice st, amountIn, amountOut)"
    and "swapFee \<noteq> OneDec"
    and "CrossTick c pId nextTick = Inr liquidityDelta"
    and "liquidity st = None"
  shows "calcInStep c poolId pId zeroForOne liq swapFee st = Inl (Panic ''nil pointer dereference'')"
  using assms
  by (simp add: calcInStep_def Let_def dec_Quo_def)

text \<open>
  Claim C8 says that the tick-crossing branch of \<^verbatim>\<open>CalcInAmtGivenOut\<close> never reads an
  uninitialised liquidity. The swap state is built without the field (the local \<^verbatim>\<open>liq\<close> is
  computed and never stored in it, where the exact-in function stores the pool's liquidity).
  The second sample pool rests on the initialised tick 3: the first step for 4 eth out
  returns the price it started from, enters the branch and dereferences the nil liquidity.
\<close>

theorem CalcInAmtGivenOut_cross_reads_nil_liquidity:
  "CalcInAmtGivenOut 1 sample sampleState \<lparr>Denom = ''eth'', Amount = 4\<rparr> ''usdc'' 0 ZeroDec
     (NewDec 9999999999) 2 = Some (Inl (Panic ''nil pointer dereference''))"
  by code_simp

subsection \<open>The square-root price returned by \<^verbatim>\<open>CalcInAmtGivenOut\<close>\<close>

text \<open>
  Claim C9. Every successful call of \<^verbatim>\<open>CalcInAmtGivenOut\<close> returns the square-root price
  that the pool had at call entry, whatever the number of loop iterations: no iteration
  writes the working square-root price.
\<close>

theorem CalcInAmtGivenOut_sqrtPrice_unchanged:
  assumes "CalcInAmtGivenOut fuel c k tokenOut tokenInDenom swapFee minPrice maxPrice poolId =
             Some (Inr (tokenIn, newLiquidity, newTick, newSqrtPrice))"
  shows "\<exists>p. getPoolById k poolId = Inr p \<and> newSqrtPrice = GetCurrentSqrtPrice p"
  using assms
  by (auto simp: CalcInAmtGivenOut_def Let_def
      split: sum.splits option.splits if_splits dest: calcInLoop_sqrtPrice)

text \<open>The witness: a call that executes the loop body once.\<close>

theorem CalcInAmtGivenOut_sqrtPrice_unchanged_witness:
  "CalcInAmtGivenOut 1 sample sampleState \<lparr>Denom = ''usdc'', Amount = 4\<rparr> ''eth'' 0 ZeroDec
     (NewDec 9999999999) 1 =
     Some (Inr (\<lparr>Denom = ''eth'', Amount = 4\<rparr>, None, 2, 2000000000000000000)) \<and>
   (\<exists>p. getPoolById sampleState 1 = Inr p \<and> 2000000000000000000 = GetCurrentSqrtPrice p)"
  using CalcInAmtGivenOut_sqrtPrice_unchanged [OF calcIn_sample_usdc4] calcIn_sample_usdc4
  by simp

subsection \<open>The price band of \<^verbatim>\<open>SwapInAmtGivenOut\<close>\<close>

text \<open>
  Claim C10. The result of \<^verbatim>\<open>SwapInAmtGivenOut\<close> (the coin or the error, and the state it
  leaves) does not depend on its arguments \<^verbatim>\<open>minPrice\<close> and \<^verbatim>\<open>maxPrice\<close>: it is the result
  for the band from 0 to 9999999999, which is what the function passes on.
\<close>

theorem SwapInAmtGivenOut_ignores_price_band:
  "SwapInAmtGivenOut fuel c k tokenOut tokenInDenom swapFee minPrice maxPrice poolId =
     SwapInAmtGivenOut fuel c k tokenOut tokenInDenom swapFee minPrice' maxPrice' poolId \<and>
   SwapInAmtGivenOut fuel c k tokenOut tokenInDenom swapFee minPrice maxPrice poolId =
     SwapInAmtGivenOut fuel c k tokenOut tokenInDenom swapFee ZeroDec (NewDec 9999999999) poolId"
  by (simp add: SwapInAmtGivenOut_def)

theorem SwapInAmtGivenOut_ignores_price_band_witness:
  "SwapInAmtGivenOut 1 sample sampleState \<lparr>Denom = ''usdc'', Amount = 4\<rparr> ''eth'' 0
     (NewDec 4500) (NewDec 5500) 1 =
   SwapInAmtGivenOut 1 sample sampleState \<lparr>Denom = ''usdc'', Amount = 4\<rparr> ''eth'' 0
     (NewDec 1) (NewDec 2) 1"
  using SwapInAmtGivenOut_ignores_price_band
    [of 1 sample sampleState "\<lparr>Denom = ''usdc'', Amount = 4\<rparr>" "''eth''" 0
        "NewDec 4500" "NewDec 5500" 1 "NewDec 1" "NewDec 2"]
  by blast

end
